theory Spec2Isabelle
  imports Main
begin

section \<open>Data model\<close>

text \<open>
  The session orchestration layer of the voice assistant: \<open>CacheService\<close> (the Redis
  adapter), \<open>SessionManager\<close> (session registry, history, recording) and
  \<open>GeminiLiveService\<close> (the live response coordinator).

  JavaScript objects are records. A property that may be \<open>undefined\<close> is an
  \<open>option\<close>. The values returned by \<open>uuidv4()\<close> and \<open>Date.now()\<close> are
  parameters of the operation that calls them, one per call site, in call order.
\<close>

text \<open>A JavaScript number that results from a subtraction which may involve
  \<open>undefined\<close>: \<open>x - undefined\<close> is \<open>NaN\<close>.\<close>

datatype number = Num int | NaN

record Settings =
  autoTranslate :: bool
  voiceEnabled :: bool
  subtitleEnabled :: bool

record HistoryEntry =
  entry_id :: string
  timestamp :: int
  userInput :: "string option"
  aiResponse :: "string option"
  entry_language :: string
  entry_voice :: string
  audioUrl :: "string option"
  entry_duration :: "int option"

record RawData =
  raw_timestamp :: int
  raw_data :: string

record Session =
  session_id :: string
  createdAt :: int
  lastActivity :: int
  participants :: "string list"
  language :: string
  voice :: string
  history :: "HistoryEntry list"
  isRecording :: bool
  recordingData :: "RawData list"
  settings :: Settings
  recordingStartTime :: "int option"
  recordingEndTime :: "int option"
  recordingDuration :: "number option"
  recordings :: "string list option"

record Recording =
  recording_id :: string
  sessionId :: string
  startTime :: int
  endTime :: int
  duration :: number
  data :: "RawData list"
  recording_history :: "HistoryEntry list"

text \<open>The \<open>options\<close> argument of \<open>createSession\<close> and \<open>joinSession\<close>.\<close>

record Options =
  opt_language :: "string option"
  opt_voice :: "string option"
  opt_autoTranslate :: "bool option"
  opt_voiceEnabled :: "bool option"
  opt_subtitleEnabled :: "bool option"

text \<open>The part of \<open>process.env\<close> that \<open>createSession\<close> reads.\<close>

record Env =
  DEFAULT_LANGUAGE :: "string option"
  DEFAULT_VOICE :: "string option"

text \<open>The \<open>entry\<close> argument of \<open>addToHistory\<close>.\<close>

record EntryInput =
  in_timestamp :: "int option"
  in_userInput :: "string option"
  in_aiResponse :: "string option"
  in_language :: "string option"
  in_voice :: "string option"
  in_audioUrl :: "string option"
  in_duration :: "int option"

text \<open>The entries of the \<open>recordingSessions\<close> map: \<open>{ startTime, data }\<close>.\<close>

record RecordingBuffer =
  buf_startTime :: int
  buf_data :: "RawData list"

text \<open>The errors thrown by \<open>SessionManager\<close>.\<close>

datatype error = SessionNotFound | SessionOrRecordingNotFound

section \<open>JavaScript primitives\<close>

text \<open>\<open>a || b\<close> on an optional string: the empty string and \<open>undefined\<close> are falsy.\<close>

definition or_string :: "string option \<Rightarrow> string \<Rightarrow> string" where
  "or_string a b = (case a of None \<Rightarrow> b | Some s \<Rightarrow> if s = [] then b else s)"

text \<open>\<open>a || b\<close> on an optional boolean: \<open>false\<close> and \<open>undefined\<close> are falsy.\<close>

definition or_bool :: "bool option \<Rightarrow> bool \<Rightarrow> bool" where
  "or_bool a b = (case a of None \<Rightarrow> b | Some v \<Rightarrow> if v then True else b)"

text \<open>\<open>a || b\<close> on an optional number: \<open>0\<close> and \<open>undefined\<close> are falsy.\<close>

definition or_int :: "int option \<Rightarrow> int \<Rightarrow> int" where
  "or_int a b = (case a of None \<Rightarrow> b | Some n \<Rightarrow> if n = 0 then b else n)"

text \<open>\<open>Array.prototype.slice(start)\<close> with one argument: a negative start counts from
  the end, and the start is clamped to the array.\<close>

definition slice :: "'a list \<Rightarrow> int \<Rightarrow> 'a list" where
  "slice xs start =
     (let n = int (length xs);
          k = (if start < 0 then max (n + start) 0 else min start n)
      in drop (nat k) xs)"

text \<open>\<open>endTime - startTime\<close> where \<open>startTime\<close> may be \<open>undefined\<close>.\<close>

definition minus_number :: "int \<Rightarrow> int option \<Rightarrow> number" where
  "minus_number a b = (case b of None \<Rightarrow> NaN | Some t \<Rightarrow> Num (a - t))"

section \<open>CacheService: the Redis adapter\<close>

text \<open>
  Redis has one key space. A key holds a string with an expiry (written by \<open>setEx\<close>)
  or a list (written by \<open>lPush\<close>). The strings are \<open>JSON.stringify\<close> of a session or
  of a recording, the list items of a history entry; \<open>JSON.parse\<close> gives the value
  back, so the store holds the values themselves.
\<close>

datatype json = JSession Session | JRecording Recording

datatype redis_value = RString json nat | RList "HistoryEntry list"

record CacheService =
  connected :: bool
  client :: "string \<rightharpoonup> redis_value"

text \<open>The range of \<open>LRANGE\<close> and \<open>LTRIM\<close>: both ends inclusive, negative indices
  count from the end, out-of-range indices are clamped.\<close>

definition redis_range :: "'a list \<Rightarrow> int \<Rightarrow> int \<Rightarrow> 'a list" where
  "redis_range xs start stop =
     (let n = int (length xs);
          s = (if start < 0 then max (n + start) 0 else start);
          e = (if stop < 0 then n + stop else min stop (n - 1))
      in if e < s \<or> n \<le> s then [] else take (nat (e - s + 1)) (drop (nat s) xs))"

text \<open>Every method returns its fallback when the store is not connected. A command on
  a key of the wrong kind is an error of the client, caught by the method.\<close>

definition CacheService_get :: "CacheService \<Rightarrow> string \<Rightarrow> json option" where
  "CacheService_get c key =
     (if \<not> connected c then None
      else case client c key of
             Some (RString v ttl) \<Rightarrow> Some v
           | _ \<Rightarrow> None)"

definition CacheService_set :: "CacheService \<Rightarrow> string \<Rightarrow> json \<Rightarrow> nat \<Rightarrow> bool \<times> CacheService" where
  "CacheService_set c key v ttl =
     (if \<not> connected c then (False, c)
      else (True, c\<lparr>client := (client c)(key \<mapsto> RString v ttl)\<rparr>))"

definition CacheService_del :: "CacheService \<Rightarrow> string \<Rightarrow> bool \<times> CacheService" where
  "CacheService_del c key =
     (if \<not> connected c then (False, c)
      else (True, c\<lparr>client := (client c)(key := None)\<rparr>))"

definition CacheService_lpush :: "CacheService \<Rightarrow> string \<Rightarrow> HistoryEntry \<Rightarrow> bool \<times> CacheService" where
  "CacheService_lpush c key v =
     (if \<not> connected c then (False, c)
      else case client c key of
             None \<Rightarrow> (True, c\<lparr>client := (client c)(key \<mapsto> RList [v])\<rparr>)
           | Some (RList xs) \<Rightarrow> (True, c\<lparr>client := (client c)(key \<mapsto> RList (v # xs))\<rparr>)
           | Some (RString w ttl) \<Rightarrow> (False, c))"

definition CacheService_lrange :: "CacheService \<Rightarrow> string \<Rightarrow> int \<Rightarrow> int \<Rightarrow> HistoryEntry list" where
  "CacheService_lrange c key start stop =
     (if \<not> connected c then []
      else case client c key of
             Some (RList xs) \<Rightarrow> redis_range xs start stop
           | _ \<Rightarrow> [])"

definition CacheService_ltrim :: "CacheService \<Rightarrow> string \<Rightarrow> int \<Rightarrow> int \<Rightarrow> bool \<times> CacheService" where
  "CacheService_ltrim c key start stop =
     (if \<not> connected c then (False, c)
      else case client c key of
             None \<Rightarrow> (True, c)
           | Some (RList xs) \<Rightarrow>
               (let ys = redis_range xs start stop
                in (True, c\<lparr>client := (client c)(key := (if ys = [] then None else Some (RList ys)))\<rparr>))
           | Some (RString w ttl) \<Rightarrow> (False, c))"

text \<open>The session-specific methods. A session key never holds a recording (the key
  prefixes differ), so a value of the other shape is read as no session.\<close>

definition CacheService_getSession :: "CacheService \<Rightarrow> string \<Rightarrow> Session option" where
  "CacheService_getSession c sid =
     (case CacheService_get c (''session:'' @ sid) of
        Some (JSession s) \<Rightarrow> Some s
      | _ \<Rightarrow> None)"

definition CacheService_setSession :: "CacheService \<Rightarrow> string \<Rightarrow> Session \<Rightarrow> bool \<times> CacheService" where
  "CacheService_setSession c sid sessionData =
     CacheService_set c (''session:'' @ sid) (JSession sessionData) 3600"

definition CacheService_deleteSession :: "CacheService \<Rightarrow> string \<Rightarrow> bool \<times> CacheService" where
  "CacheService_deleteSession c sid = CacheService_del c (''session:'' @ sid)"

definition CacheService_getSessionHistory :: "CacheService \<Rightarrow> string \<Rightarrow> HistoryEntry list" where
  "CacheService_getSessionHistory c sid = CacheService_lrange c (''history:'' @ sid) 0 (- 1)"

definition CacheService_addToSessionHistory ::
    "CacheService \<Rightarrow> string \<Rightarrow> HistoryEntry \<Rightarrow> bool \<times> CacheService" where
  "CacheService_addToSessionHistory c sid entry =
     (case CacheService_lpush c (''history:'' @ sid) entry of
        (success, c1) \<Rightarrow>
          if success then (success, snd (CacheService_ltrim c1 (''history:'' @ sid) 0 99))
          else (success, c1))"

text \<open>The handlers of the client's \<open>end\<close> and \<open>error\<close> events: the service is
  no longer connected; what the store holds is untouched.\<close>

definition CacheService_on_end :: "CacheService \<Rightarrow> CacheService" where
  "CacheService_on_end c = c\<lparr>connected := False\<rparr>"

section \<open>SessionManager\<close>

text \<open>
  Session objects are shared by reference: \<open>activeSessions\<close> maps a session id to
  an object, the operations mutate the object in place, and \<open>joinSession\<close> may store
  one object under two ids. So the state has an explicit store of objects;
  \<open>activeSessions\<close> holds addresses. \<open>JSON.parse\<close> and an object literal allocate a
  new object. The entries of \<open>recordingSessions\<close> are referenced from the map only
  and are kept by value.
\<close>

type_synonym ref = nat

record SessionManager =
  cacheService :: CacheService
  objects :: "ref \<Rightarrow> Session"
  nextRef :: ref
  activeSessions :: "string \<rightharpoonup> ref"
  recordingSessions :: "string \<rightharpoonup> RecordingBuffer"

text \<open>The content of an address that holds no object yet.\<close>

definition unallocated :: Session where
  "unallocated =
     \<lparr>session_id = [], createdAt = 0, lastActivity = 0, participants = [],
      language = [], voice = [], history = [], isRecording = False, recordingData = [],
      settings = \<lparr>autoTranslate = False, voiceEnabled = False, subtitleEnabled = False\<rparr>,
      recordingStartTime = None, recordingEndTime = None, recordingDuration = None,
      recordings = None\<rparr>"

text \<open>The constructor.\<close>

definition new_SessionManager :: "CacheService \<Rightarrow> SessionManager" where
  "new_SessionManager c =
     \<lparr>cacheService = c, objects = (\<lambda>r. unallocated), nextRef = 0,
      activeSessions = Map.empty, recordingSessions = Map.empty\<rparr>"

definition alloc :: "SessionManager \<Rightarrow> Session \<Rightarrow> ref \<times> SessionManager" where
  "alloc m s = (nextRef m, m\<lparr>objects := (objects m)(nextRef m := s), nextRef := Suc (nextRef m)\<rparr>)"

text \<open>Mutation of the object at an address.\<close>

definition assign :: "SessionManager \<Rightarrow> ref \<Rightarrow> (Session \<Rightarrow> Session) \<Rightarrow> SessionManager" where
  "assign m r f = m\<lparr>objects := (objects m)(r := f (objects m r))\<rparr>"

definition createSession ::
    "SessionManager \<Rightarrow> Env \<Rightarrow> Options \<Rightarrow> string \<Rightarrow> int \<Rightarrow> int \<Rightarrow> ref \<times> SessionManager" where
  "createSession m env options newId t1 t2 =
     (let session =
            \<lparr>session_id = newId,
             createdAt = t1,
             lastActivity = t2,
             participants = [],
             language = or_string (opt_language options) (or_string (DEFAULT_LANGUAGE env) ''en''),
             voice = or_string (opt_voice options) (or_string (DEFAULT_VOICE env) ''male''),
             history = [],
             isRecording = False,
             recordingData = [],
             settings =
               \<lparr>autoTranslate = or_bool (opt_autoTranslate options) False,
                voiceEnabled = or_bool (opt_voiceEnabled options) True,
                subtitleEnabled = or_bool (opt_subtitleEnabled options) True\<rparr>,
             recordingStartTime = None, recordingEndTime = None, recordingDuration = None,
             recordings = None\<rparr>;
          (r, m1) = alloc m session;
          c = snd (CacheService_setSession (cacheService m1) newId (objects m1 r))
      in (r, m1\<lparr>cacheService := c, activeSessions := (activeSessions m1)(newId \<mapsto> r)\<rparr>))"

definition joinSession ::
    "SessionManager \<Rightarrow> Env \<Rightarrow> string \<Rightarrow> string \<Rightarrow> Options \<Rightarrow> string \<Rightarrow> int \<Rightarrow> int \<Rightarrow> int
      \<Rightarrow> ref \<times> SessionManager" where
  "joinSession m env sid participantId options newId t1 t2 now =
     (let (r, m1) =
            (case CacheService_getSession (cacheService m) sid of
               None \<Rightarrow> createSession m env options newId t1 t2
             | Some s \<Rightarrow> alloc m s);
          m2 = (if participantId \<in> set (participants (objects m1 r)) then m1
                else assign m1 r (\<lambda>s. s\<lparr>participants := participants s @ [participantId]\<rparr>));
          m3 = (case opt_language options of
                  None \<Rightarrow> m2
                | Some l \<Rightarrow> if l = [] then m2 else assign m2 r (\<lambda>s. s\<lparr>language := l\<rparr>));
          m4 = (case opt_voice options of
                  None \<Rightarrow> m3
                | Some v \<Rightarrow> if v = [] then m3 else assign m3 r (\<lambda>s. s\<lparr>voice := v\<rparr>));
          m5 = assign m4 r (\<lambda>s. s\<lparr>lastActivity := now\<rparr>);
          m6 = assign m5 r (\<lambda>s. s\<lparr>history := CacheService_getSessionHistory (cacheService m5) sid\<rparr>);
          c = snd (CacheService_setSession (cacheService m6) sid (objects m6 r))
      in (r, m6\<lparr>cacheService := c, activeSessions := (activeSessions m6)(sid \<mapsto> r)\<rparr>))"

definition leaveSession :: "SessionManager \<Rightarrow> string \<Rightarrow> string \<Rightarrow> int \<Rightarrow> SessionManager" where
  "leaveSession m sid participantId now =
     (case CacheService_getSession (cacheService m) sid of
        None \<Rightarrow> m
      | Some s \<Rightarrow>
          (let (r, m1) = alloc m s;
               m2 = assign m1 r
                      (\<lambda>s. s\<lparr>participants := filter (\<lambda>i. i \<noteq> participantId) (participants s)\<rparr>);
               m3 = assign m2 r (\<lambda>s. s\<lparr>lastActivity := now\<rparr>)
           in if length (participants (objects m3 r)) = 0
              then m3\<lparr>cacheService := snd (CacheService_deleteSession (cacheService m3) sid),
                      activeSessions := (activeSessions m3)(sid := None),
                      recordingSessions := (recordingSessions m3)(sid := None)\<rparr>
              else m3\<lparr>cacheService := snd (CacheService_setSession (cacheService m3) sid (objects m3 r)),
                      activeSessions := (activeSessions m3)(sid \<mapsto> r)\<rparr>))"

definition getSession :: "SessionManager \<Rightarrow> string \<Rightarrow> ref option \<times> SessionManager" where
  "getSession m sid =
     (case activeSessions m sid of
        Some r \<Rightarrow> (Some r, m)
      | None \<Rightarrow>
          (case CacheService_getSession (cacheService m) sid of
             Some s \<Rightarrow>
               (let (r, m1) = alloc m s
                in (Some r, m1\<lparr>activeSessions := (activeSessions m1)(sid \<mapsto> r)\<rparr>))
           | None \<Rightarrow> (None, m)))"

text \<open>The \<open>updates\<close> argument of \<open>updateSession\<close>: the own properties of the object,
  in insertion order. \<open>Object.assign\<close> copies them one by one.\<close>

datatype property =
    P_id string
  | P_createdAt int
  | P_lastActivity int
  | P_participants "string list"
  | P_language string
  | P_voice string
  | P_history "HistoryEntry list"
  | P_isRecording bool
  | P_recordingData "RawData list"
  | P_settings Settings
  | P_recordingStartTime int
  | P_recordingEndTime int
  | P_recordingDuration number
  | P_recordings "string list"

fun assign_property :: "Session \<Rightarrow> property \<Rightarrow> Session" where
  "assign_property s (P_id v) = s\<lparr>session_id := v\<rparr>"
| "assign_property s (P_createdAt v) = s\<lparr>createdAt := v\<rparr>"
| "assign_property s (P_lastActivity v) = s\<lparr>lastActivity := v\<rparr>"
| "assign_property s (P_participants v) = s\<lparr>participants := v\<rparr>"
| "assign_property s (P_language v) = s\<lparr>language := v\<rparr>"
| "assign_property s (P_voice v) = s\<lparr>voice := v\<rparr>"
| "assign_property s (P_history v) = s\<lparr>history := v\<rparr>"
| "assign_property s (P_isRecording v) = s\<lparr>isRecording := v\<rparr>"
| "assign_property s (P_recordingData v) = s\<lparr>recordingData := v\<rparr>"
| "assign_property s (P_settings v) = s\<lparr>settings := v\<rparr>"
| "assign_property s (P_recordingStartTime v) = s\<lparr>recordingStartTime := Some v\<rparr>"
| "assign_property s (P_recordingEndTime v) = s\<lparr>recordingEndTime := Some v\<rparr>"
| "assign_property s (P_recordingDuration v) = s\<lparr>recordingDuration := Some v\<rparr>"
| "assign_property s (P_recordings v) = s\<lparr>recordings := Some v\<rparr>"

definition Object_assign :: "Session \<Rightarrow> property list \<Rightarrow> Session" where
  "Object_assign s updates = foldl assign_property s updates"

definition updateSession ::
    "SessionManager \<Rightarrow> string \<Rightarrow> property list \<Rightarrow> int \<Rightarrow> (error + ref) \<times> SessionManager" where
  "updateSession m sid updates now =
     (case getSession m sid of
        (None, m1) \<Rightarrow> (Inl SessionNotFound, m1)
      | (Some r, m1) \<Rightarrow>
          (let m2 = assign m1 r (\<lambda>s. Object_assign s updates);
               m3 = assign m2 r (\<lambda>s. s\<lparr>lastActivity := now\<rparr>);
               c = snd (CacheService_setSession (cacheService m3) sid (objects m3 r))
           in (Inr r, m3\<lparr>cacheService := c, activeSessions := (activeSessions m3)(sid \<mapsto> r)\<rparr>)))"

definition addToHistory ::
    "SessionManager \<Rightarrow> string \<Rightarrow> EntryInput \<Rightarrow> string \<Rightarrow> int \<Rightarrow> int
      \<Rightarrow> (error + HistoryEntry) \<times> SessionManager" where
  "addToHistory m sid entry newId t now =
     (case getSession m sid of
        (None, m1) \<Rightarrow> (Inl SessionNotFound, m1)
      | (Some r, m1) \<Rightarrow>
          (let historyEntry =
                 \<lparr>entry_id = newId,
                  timestamp = or_int (in_timestamp entry) t,
                  userInput = in_userInput entry,
                  aiResponse = in_aiResponse entry,
                  entry_language = or_string (in_language entry) (language (objects m1 r)),
                  entry_voice = or_string (in_voice entry) (voice (objects m1 r)),
                  audioUrl = in_audioUrl entry,
                  entry_duration = in_duration entry\<rparr>;
               c1 = snd (CacheService_addToSessionHistory (cacheService m1) sid historyEntry);
               m2 = assign (m1\<lparr>cacheService := c1\<rparr>) r
                      (\<lambda>s. s\<lparr>history := CacheService_getSessionHistory c1 sid\<rparr>);
               m3 = assign m2 r (\<lambda>s. s\<lparr>lastActivity := now\<rparr>);
               c2 = snd (CacheService_setSession (cacheService m3) sid (objects m3 r))
           in (Inr historyEntry,
               m3\<lparr>cacheService := c2, activeSessions := (activeSessions m3)(sid \<mapsto> r)\<rparr>)))"

text \<open>\<open>limit\<close> is \<open>None\<close> when the caller passes no limit: the default is 50.\<close>

definition getSessionHistory :: "SessionManager \<Rightarrow> string \<Rightarrow> int option \<Rightarrow> HistoryEntry list" where
  "getSessionHistory m sid limit =
     (let history = CacheService_getSessionHistory (cacheService m) sid
      in slice history (- (case limit of None \<Rightarrow> 50 | Some l \<Rightarrow> l)))"

definition startRecording ::
    "SessionManager \<Rightarrow> string \<Rightarrow> int \<Rightarrow> (error + ref) \<times> SessionManager" where
  "startRecording m sid now =
     (case getSession m sid of
        (None, m1) \<Rightarrow> (Inl SessionNotFound, m1)
      | (Some r, m1) \<Rightarrow>
          (let m2 = assign m1 r (\<lambda>s. s\<lparr>isRecording := True\<rparr>);
               m3 = assign m2 r (\<lambda>s. s\<lparr>recordingStartTime := Some now\<rparr>);
               m4 = assign m3 r (\<lambda>s. s\<lparr>recordingData := []\<rparr>);
               c = snd (CacheService_setSession (cacheService m4) sid (objects m4 r))
           in (Inr r,
               m4\<lparr>cacheService := c,
                  activeSessions := (activeSessions m4)(sid \<mapsto> r),
                  recordingSessions := (recordingSessions m4)(sid \<mapsto>
                    \<lparr>buf_startTime = now, buf_data = []\<rparr>)\<rparr>)))"

definition stopRecording ::
    "SessionManager \<Rightarrow> string \<Rightarrow> int \<Rightarrow> string \<Rightarrow> (error + Recording) \<times> SessionManager" where
  "stopRecording m sid now newId =
     (case getSession m sid of
        (None, m1) \<Rightarrow> (Inl SessionOrRecordingNotFound, m1)
      | (Some r, m1) \<Rightarrow>
          (case recordingSessions m1 sid of
             None \<Rightarrow> (Inl SessionOrRecordingNotFound, m1)
           | Some recording \<Rightarrow>
               (let m2 = assign m1 r (\<lambda>s. s\<lparr>isRecording := False\<rparr>);
                    m3 = assign m2 r (\<lambda>s. s\<lparr>recordingEndTime := Some now\<rparr>);
                    m4 = assign m3 r
                           (\<lambda>s. s\<lparr>recordingDuration := Some (minus_number now (recordingStartTime s))\<rparr>);
                    recordingData =
                      \<lparr>recording_id = newId,
                       sessionId = sid,
                       startTime = buf_startTime recording,
                       endTime = now,
                       duration = minus_number now (recordingStartTime (objects m3 r)),
                       data = buf_data recording,
                       recording_history = slice (history (objects m4 r)) (- 20)\<rparr>;
                    c1 = snd (CacheService_set (cacheService m4) (''recording:'' @ newId)
                                (JRecording recordingData) 86400);
                    m5 = assign (m4\<lparr>cacheService := c1\<rparr>) r
                           (\<lambda>s. s\<lparr>recordings :=
                                   Some ((case recordings s of None \<Rightarrow> [] | Some rs \<Rightarrow> rs) @ [newId])\<rparr>);
                    c2 = snd (CacheService_setSession (cacheService m5) sid (objects m5 r))
                in (Inr recordingData,
                    m5\<lparr>cacheService := c2,
                       activeSessions := (activeSessions m5)(sid \<mapsto> r),
                       recordingSessions := (recordingSessions m5)(sid := None)\<rparr>))))"

definition addRecordingData :: "SessionManager \<Rightarrow> string \<Rightarrow> string \<Rightarrow> int \<Rightarrow> SessionManager" where
  "addRecordingData m sid d now =
     (case recordingSessions m sid of
        None \<Rightarrow> m
      | Some recording \<Rightarrow>
          m\<lparr>recordingSessions := (recordingSessions m)(sid \<mapsto>
              recording\<lparr>buf_data := buf_data recording @ [\<lparr>raw_timestamp = now, raw_data = d\<rparr>]\<rparr>)\<rparr>)"

definition deleteSession :: "SessionManager \<Rightarrow> string \<Rightarrow> bool \<times> SessionManager" where
  "deleteSession m sid =
     (case getSession m sid of
        (None, m1) \<Rightarrow> (False, m1)
      | (Some r, m1) \<Rightarrow>
          (let c1 = foldl (\<lambda>c recordingId. snd (CacheService_del c (''recording:'' @ recordingId)))
                      (cacheService m1)
                      (case recordings (objects m1 r) of None \<Rightarrow> [] | Some rs \<Rightarrow> rs);
               c2 = snd (CacheService_deleteSession c1 sid);
               c3 = snd (CacheService_del c2 (''history:'' @ sid))
           in (True,
               m1\<lparr>cacheService := c3,
                  activeSessions := (activeSessions m1)(sid := None),
                  recordingSessions := (recordingSessions m1)(sid := None)\<rparr>)))"

section \<open>GeminiLiveService\<close>

record LiveState =
  live_id :: string
  systemInstruction :: string
  responding :: bool

text \<open>What \<open>geminiService.getResponse\<close> resolves to.\<close>

record Response =
  response_text :: string
  response_audio :: "string option"

record ResponsePayload =
  payload_sessionId :: string
  payload_text :: string
  payload_audio :: "string option"
  payload_language :: string
  payload_voice :: string

text \<open>The events of the emitter: \<open>session-opened\<close>, \<open>session-closed\<close>,
  \<open>interrupted\<close>, \<open>response\<close>.\<close>

datatype emitted = SessionOpened string | SessionClosed string | Interrupted string
  | ResponseEvent ResponsePayload

text \<open>
  \<open>sendAudioChunk\<close> suspends at \<open>await this.geminiService.getResponse(...)\<close>; the code
  before and the code after the \<open>await\<close> each run without interruption, and any other
  handler may run in between. \<open>calls\<close> lists the invocations that are suspended there,
  each with its \<open>session\<close> argument (whose \<open>id\<close>, \<open>language\<close> and \<open>voice\<close> the
  coordinator only reads); \<open>emits\<close> lists the events emitted so far, oldest first.
\<close>

record GeminiLiveService =
  sessions :: "string \<rightharpoonup> LiveState"
  emits :: "emitted list"
  calls :: "Session list"

definition new_GeminiLiveService :: GeminiLiveService where
  "new_GeminiLiveService = \<lparr>sessions = Map.empty, emits = [], calls = []\<rparr>"

definition emit :: "GeminiLiveService \<Rightarrow> emitted \<Rightarrow> GeminiLiveService" where
  "emit g e = g\<lparr>emits := emits g @ [e]\<rparr>"

definition openSession :: "GeminiLiveService \<Rightarrow> string \<Rightarrow> string option \<Rightarrow> GeminiLiveService" where
  "openSession g sid instruction =
     emit (g\<lparr>sessions := (sessions g)(sid \<mapsto>
             \<lparr>live_id = sid, systemInstruction = or_string instruction [], responding = False\<rparr>)\<rparr>)
          (SessionOpened sid)"

definition closeSession :: "GeminiLiveService \<Rightarrow> string \<Rightarrow> GeminiLiveService" where
  "closeSession g sid = emit (g\<lparr>sessions := (sessions g)(sid := None)\<rparr>) (SessionClosed sid)"

definition interrupt :: "GeminiLiveService \<Rightarrow> string \<Rightarrow> GeminiLiveService" where
  "interrupt g sid =
     (case sessions g sid of
        None \<Rightarrow> g
      | Some s \<Rightarrow> emit (g\<lparr>sessions := (sessions g)(sid \<mapsto> s\<lparr>responding := False\<rparr>)\<rparr>) (Interrupted sid))"

text \<open>\<open>sendAudioChunk\<close> up to the \<open>await\<close>: the call of \<open>getResponse\<close> is made exactly
  when an invocation is added to \<open>calls\<close>.\<close>

definition sendAudioChunk :: "GeminiLiveService \<Rightarrow> Session \<Rightarrow> GeminiLiveService" where
  "sendAudioChunk g session =
     (case sessions g (session_id session) of
        None \<Rightarrow> g
      | Some s \<Rightarrow>
          if responding s then g
          else g\<lparr>sessions := (sessions g)(session_id session \<mapsto> s\<lparr>responding := True\<rparr>),
                 calls := calls g @ [session]\<rparr>)"

text \<open>How the awaited call ends: it resolves to a response, or it throws.\<close>

datatype outcome = Resolved Response | Rejected

text \<open>\<open>sendAudioChunk\<close> after the \<open>await\<close>: the rest of the \<open>try\<close> block, then the
  \<open>finally\<close> block. When the call throws, only the \<open>finally\<close> block runs.\<close>

definition sendAudioChunk_resume :: "GeminiLiveService \<Rightarrow> Session \<Rightarrow> outcome \<Rightarrow> GeminiLiveService" where
  "sendAudioChunk_resume g session out =
     (let g1 = (case out of
                  Rejected \<Rightarrow> g
                | Resolved response \<Rightarrow>
                    if sessions g (session_id session) = None then g
                    else emit g (ResponseEvent
                           \<lparr>payload_sessionId = session_id session,
                            payload_text = response_text response,
                            payload_audio = response_audio response,
                            payload_language = language session,
                            payload_voice = voice session\<rparr>))
      in case sessions g1 (session_id session) of
           None \<Rightarrow> g1
         | Some curr' \<Rightarrow>
             g1\<lparr>sessions := (sessions g1)(session_id session \<mapsto> curr'\<lparr>responding := False\<rparr>)\<rparr>)"

text \<open>What can happen to the coordinator, in any order: the four methods are called,
  and the suspended invocation at position \<open>i\<close> of \<open>calls\<close> is resumed.\<close>

datatype event =
    OpenSession string "string option"
  | CloseSession string
  | Interrupt string
  | AudioChunk Session
  | Resume nat outcome

fun step :: "GeminiLiveService \<Rightarrow> event \<Rightarrow> GeminiLiveService" where
  "step g (OpenSession sid instruction) = openSession g sid instruction"
| "step g (CloseSession sid) = closeSession g sid"
| "step g (Interrupt sid) = interrupt g sid"
| "step g (AudioChunk session) = sendAudioChunk g session"
| "step g (Resume i out) =
     (if i < length (calls g)
      then sendAudioChunk_resume (g\<lparr>calls := take i (calls g) @ drop (Suc i) (calls g)\<rparr>)
             (calls g ! i) out
      else g)"

definition run :: "GeminiLiveService \<Rightarrow> event list \<Rightarrow> GeminiLiveService" where
  "run g evs = foldl step g evs"

text \<open>The number of calls of \<open>getResponse\<close> that are outstanding for a session.\<close>

definition in_flight :: "GeminiLiveService \<Rightarrow> string \<Rightarrow> nat" where
  "in_flight g sid = length (filter (\<lambda>s. session_id s = sid) (calls g))"

text \<open>The response events emitted for a session.\<close>

fun is_response_for :: "string \<Rightarrow> emitted \<Rightarrow> bool" where
  "is_response_for sid (ResponseEvent p) = (payload_sessionId p = sid)"
| "is_response_for sid e = False"


text \<open>What \<open>joinSession\<close> does to the session object, as one update: the
  participant is added if absent, the overrides are applied, \<open>lastActivity\<close> and
  \<open>history\<close> are refreshed.\<close>

definition join_update :: "Session \<Rightarrow> string \<Rightarrow> Options \<Rightarrow> int \<Rightarrow> HistoryEntry list \<Rightarrow> Session" where
  "join_update s participantId options now h =
     s\<lparr>participants :=
          (if participantId \<in> set (participants s) then participants s
           else participants s @ [participantId]),
        language := (case opt_language options of
                       None \<Rightarrow> language s
                     | Some l \<Rightarrow> if l = [] then language s else l),
        voice := (case opt_voice options of
                    None \<Rightarrow> voice s
                  | Some v \<Rightarrow> if v = [] then voice s else v),
        lastActivity := now,
        history := h\<rparr>"




section \<open>Example values\<close>

definition no_options :: Options where
  "no_options =
     \<lparr>opt_language = None, opt_voice = None, opt_autoTranslate = None,
      opt_voiceEnabled = None, opt_subtitleEnabled = None\<rparr>"

definition no_env :: Env where
  "no_env = \<lparr>DEFAULT_LANGUAGE = None, DEFAULT_VOICE = None\<rparr>"

text \<open>A store with no keys, connected or not.\<close>

definition empty_store :: "bool \<Rightarrow> CacheService" where
  "empty_store b = \<lparr>connected = b, client = Map.empty\<rparr>"

text \<open>A manager after \<open>createSession({})\<close> returned the session \<open>s1\<close> at time 1.\<close>

definition one_session :: "bool \<Rightarrow> SessionManager" where
  "one_session b =
     snd (createSession (new_SessionManager (empty_store b)) no_env no_options ''s1'' 1 1)"

text \<open>The same manager after \<open>startRecording\<close> at time 10 and one chunk of raw data at
  time 15.\<close>

definition recording_session :: SessionManager where
  "recording_session =
     addRecordingData (snd (startRecording (one_session True) ''s1'' 10)) ''s1'' ''chunk'' 15"

text \<open>The \<open>session\<close> argument of \<open>sendAudioChunk\<close> for the live session \<open>a\<close>.\<close>

definition session_a :: Session where
  "session_a = unallocated\<lparr>session_id := ''a'', language := ''en'', voice := ''male''\<rparr>"

text \<open>History entries, and a connected store after three appends to the history of
  \<open>s1\<close>, in the order \<open>e1\<close>, \<open>e2\<close>, \<open>e3\<close>.\<close>

definition example_entry :: "string \<Rightarrow> int \<Rightarrow> HistoryEntry" where
  "example_entry i t =
     \<lparr>entry_id = i, timestamp = t, userInput = Some ''hi'', aiResponse = Some ''hello'',
      entry_language = ''en'', entry_voice = ''male'', audioUrl = None, entry_duration = None\<rparr>"

definition three_entries :: CacheService where
  "three_entries =
     snd (CacheService_addToSessionHistory
       (snd (CacheService_addToSessionHistory
         (snd (CacheService_addToSessionHistory (empty_store True) ''s1'' (example_entry ''e1'' 1)))
         ''s1'' (example_entry ''e2'' 2)))
       ''s1'' (example_entry ''e3'' 3))"

text \<open>The \<open>entry\<close> argument of an \<open>addToHistory\<close> call.\<close>

definition entry_input :: EntryInput where
  "entry_input =
     \<lparr>in_timestamp = Some 5, in_userInput = Some ''hi'', in_aiResponse = Some ''hello'',
      in_language = None, in_voice = None, in_audioUrl = None, in_duration = None\<rparr>"

text \<open>The manager after \<open>createSession\<close>, \<open>joinSession\<close> of the participant \<open>p1\<close> and
  one \<open>addToHistory\<close>, on a connected store.\<close>

definition joined_session :: SessionManager where
  "joined_session =
     snd (addToHistory
       (snd (joinSession (one_session True) no_env ''s1'' ''p1'' no_options ''u2'' 2 2 3))
       ''s1'' entry_input ''e1'' 5 6)"

text \<open>The manager after \<open>createSession\<close>, \<open>joinSession\<close> of the participants \<open>p1\<close> and
  \<open>p2\<close>, and \<open>startRecording\<close> at time 10.\<close>

definition busy_session :: SessionManager where
  "busy_session =
     snd (startRecording
       (snd (joinSession
         (snd (joinSession (one_session True) no_env ''s1'' ''p1'' no_options ''u2'' 2 2 3))
         no_env ''s1'' ''p2'' no_options ''u3'' 4 4 5))
       ''s1'' 10)"

text \<open>The manager of \<open>busy_session\<close> after the connection to the store has ended.\<close>

definition busy_store_down :: SessionManager where
  "busy_store_down =
     busy_session\<lparr>cacheService := CacheService_on_end (cacheService busy_session)\<rparr>"

text \<open>A new manager (a restarted process) on the store that \<open>startRecording\<close> at time
  10 on \<open>s1\<close> has left, after the connection to the store has ended: the store holds
  the session \<open>s1\<close> with \<open>isRecording\<close> true, the memory is empty.\<close>

definition restarted_store_down :: SessionManager where
  "restarted_store_down =
     new_SessionManager
       (CacheService_on_end (cacheService (snd (startRecording (one_session True) ''s1'' 10))))"

text \<open>On a store that is not connected: \<open>createSession\<close>, \<open>startRecording\<close> at time 10,
  then \<open>joinSession\<close> of the participant \<open>p2\<close> at time 13.\<close>

definition joined_while_recording :: SessionManager where
  "joined_while_recording =
     snd (joinSession (snd (startRecording (one_session False) ''s1'' 10))
            no_env ''s1'' ''p2'' no_options ''u2'' 12 12 13)"

section \<open>Unfolding rules\<close>

lemmas js_defs = or_string_def or_bool_def or_int_def slice_def minus_number_def redis_range_def

lemmas cache_defs = CacheService_get_def CacheService_set_def CacheService_del_def
  CacheService_lpush_def CacheService_lrange_def CacheService_ltrim_def
  CacheService_getSession_def CacheService_setSession_def CacheService_deleteSession_def
  CacheService_getSessionHistory_def CacheService_addToSessionHistory_def

lemmas manager_defs = createSession_def joinSession_def leaveSession_def getSession_def
  updateSession_def addToHistory_def getSessionHistory_def startRecording_def
  stopRecording_def addRecordingData_def deleteSession_def alloc_def assign_def

lemmas example_defs = no_options_def no_env_def empty_store_def one_session_def
  recording_session_def session_a_def new_SessionManager_def unallocated_def
  example_entry_def three_entries_def entry_input_def joined_session_def busy_session_def
  busy_store_down_def restarted_store_down_def joined_while_recording_def CacheService_on_end_def

lemmas live_defs = run_def in_flight_def openSession_def closeSession_def
  new_GeminiLiveService_def emit_def sendAudioChunk_def sendAudioChunk_resume_def
  interrupt_def

section \<open>The live response coordinator\<close>














text \<open>
  Claim C2, as the code has it. \<open>interrupt\<close> on an open session clears \<open>responding\<close> at
  once and emits \<open>interrupted\<close>. The result of the interrupted call, when it returns,
  is emitted as a \<open>response\<close> event: the code after the \<open>await\<close> tests only whether the
  session is still in the map, so a late result is dropped only after \<open>closeSession\<close>.
\<close>

theorem interrupt_then_late_result:
  assumes "sessions g sid = Some ls" and "session_id session = sid"
  shows "sessions (interrupt g sid) sid = Some (ls\<lparr>responding := False\<rparr>) \<and>
         emits (interrupt g sid) = emits g @ [Interrupted sid] \<and>
         emits (sendAudioChunk_resume (interrupt g sid) session (Resolved response)) =
           emits g @ [Interrupted sid, ResponseEvent
                   \<lparr>payload_sessionId = sid, payload_text = response_text response,
                    payload_audio = response_audio response,
                    payload_language = language session, payload_voice = voice session\<rparr>] \<and>
         emits (sendAudioChunk_resume g' session (Resolved response)) =
           (if sessions g' sid = None then emits g'
            else emits g' @ [ResponseEvent
                   \<lparr>payload_sessionId = sid, payload_text = response_text response,
                    payload_audio = response_audio response,
                    payload_language = language session, payload_voice = voice session\<rparr>])"
  using assms
  by (simp add: interrupt_def emit_def sendAudioChunk_resume_def Let_def split: option.splits)

text \<open>The theorem at a session that is responding to one audio event.\<close>

theorem interrupt_then_late_result_witness:
  "sessions (run new_GeminiLiveService [OpenSession ''a'' None, AudioChunk session_a]) ''a'' =
     Some \<lparr>live_id = ''a'', systemInstruction = [], responding = True\<rparr> \<and>
   session_id session_a = ''a'' \<and>
   sessions (interrupt (run new_GeminiLiveService [OpenSession ''a'' None, AudioChunk session_a]) ''a'') ''a'' =
     Some \<lparr>live_id = ''a'', systemInstruction = [], responding = False\<rparr> \<and>
   emits (sendAudioChunk_resume
            (interrupt (run new_GeminiLiveService [OpenSession ''a'' None, AudioChunk session_a]) ''a'')
            session_a (Resolved \<lparr>response_text = ''late'', response_audio = None\<rparr>)) =
     [SessionOpened ''a'', Interrupted ''a'',
      ResponseEvent \<lparr>payload_sessionId = ''a'', payload_text = ''late'', payload_audio = None,
        payload_language = ''en'', payload_voice = ''male''\<rparr>]"
proof -
  have h1: "sessions (run new_GeminiLiveService [OpenSession ''a'' None, AudioChunk session_a]) ''a'' =
      Some \<lparr>live_id = ''a'', systemInstruction = [], responding = True\<rparr>"
    by (simp add: live_defs example_defs js_defs)
  have h2: "session_id session_a = ''a''"
    by (simp add: example_defs)
  have e: "emits (run new_GeminiLiveService [OpenSession ''a'' None, AudioChunk session_a]) =
      [SessionOpened ''a'']"
    by (simp add: live_defs example_defs js_defs)
  have l: "language session_a = ''en''" "voice session_a = ''male''"
    by (simp_all add: example_defs)
  show ?thesis
    using h1 h2 e l
      interrupt_then_late_result [OF h1 h2,
        of "\<lparr>response_text = ''late'', response_audio = None\<rparr>" new_GeminiLiveService]
    by simp
qed

text \<open>Claim C2 as stated fails: after \<open>openSession\<close>, an audio event and \<open>interrupt\<close>,
  the return of the interrupted call emits its result as a \<open>response\<close> event.\<close>

theorem late_result_emitted_after_interrupt:
  "filter (is_response_for ''a'')
     (emits (run new_GeminiLiveService
        [OpenSession ''a'' None, AudioChunk session_a, Interrupt ''a'',
         Resume 0 (Resolved \<lparr>response_text = ''late'', response_audio = None\<rparr>)]))
   = [ResponseEvent \<lparr>payload_sessionId = ''a'', payload_text = ''late'', payload_audio = None,
        payload_language = ''en'', payload_voice = ''male''\<rparr>]"
  by (simp add: live_defs example_defs js_defs)

section \<open>The session registry\<close>

lemma joinSession_eq:
  assumes "(case CacheService_getSession (cacheService m) sid of
               None \<Rightarrow> createSession m env options newId t1 t2
             | Some s \<Rightarrow> alloc m s) = (r, m1)"
  shows "joinSession m env sid participantId options newId t1 t2 now =
     (r, m1\<lparr>objects := (objects m1)(r := join_update (objects m1 r) participantId options now
                  (CacheService_getSessionHistory (cacheService m1) sid)),
            cacheService := snd (CacheService_setSession (cacheService m1) sid
                (join_update (objects m1 r) participantId options now
                  (CacheService_getSessionHistory (cacheService m1) sid))),
            activeSessions := (activeSessions m1)(sid \<mapsto> r)\<rparr>)"
  unfolding joinSession_def assms
  by (cases "participantId \<in> set (participants (objects m1 r))";
      cases "opt_language options"; cases "opt_voice options";
      simp add: assign_def join_update_def Let_def)

lemma createSession_result:
  "session_id (objects (snd (createSession m env options newId t1 t2))
      (fst (createSession m env options newId t1 t2))) = newId"
  "activeSessions (snd (createSession m env options newId t1 t2)) =
      (activeSessions m)(newId \<mapsto> fst (createSession m env options newId t1 t2))"
  "connected (cacheService (snd (createSession m env options newId t1 t2))) =
      connected (cacheService m)"
  by (simp_all add: createSession_def alloc_def CacheService_setSession_def CacheService_set_def
      Let_def)


lemma session_id_join_update: "session_id (join_update s p options now h) = session_id s"
  by (simp add: join_update_def)

text \<open>
  Claim C8, at the input where the code departs from it. \<open>createSession\<close> with
  \<open>voiceEnabled: false\<close> and \<open>subtitleEnabled: false\<close> returns a session whose two
  settings are \<open>true\<close>: \<open>options.voiceEnabled || true\<close> is \<open>true\<close> for every value of the
  option.
\<close>

theorem createSession_ignores_false:
  "settings (objects
      (snd (createSession m env
         (options\<lparr>opt_autoTranslate := Some False, opt_voiceEnabled := Some False,
            opt_subtitleEnabled := Some False\<rparr>) newId t1 t2))
      (fst (createSession m env
         (options\<lparr>opt_autoTranslate := Some False, opt_voiceEnabled := Some False,
            opt_subtitleEnabled := Some False\<rparr>) newId t1 t2))) =
   \<lparr>autoTranslate = False, voiceEnabled = True, subtitleEnabled = True\<rparr>"
  by (simp add: createSession_def alloc_def or_bool_def Let_def)




section \<open>Recording capture\<close>

lemma recording_session_memory:
  "activeSessions recording_session ''s1'' = Some 0"
  "recordingSessions recording_session ''s1'' =
     Some \<lparr>buf_startTime = 10, buf_data = [\<lparr>raw_timestamp = 15, raw_data = ''chunk''\<rparr>]\<rparr>"
  by (simp_all add: example_defs manager_defs js_defs cache_defs Let_def)




section \<open>The history ledger\<close>

lemma redis_range_all: "redis_range xs 0 (- 1) = xs"
  by (simp add: redis_range_def Let_def)

lemma redis_range_100: "redis_range xs 0 99 = take 100 xs"
  by (cases "xs = []") (auto simp add: redis_range_def Let_def min_def)

text \<open>On a connected store an append puts the entry at the head of the list and keeps
  the first 100: the list never holds more than 100 entries and loses its oldest entry
  first.\<close>

lemma addToSessionHistory_connected:
  assumes "connected c"
    and "\<forall>w ttl. client c (''history:'' @ sid) \<noteq> Some (RString w ttl)"
  shows "CacheService_getSessionHistory (snd (CacheService_addToSessionHistory c sid e)) sid =
         take 100 (e # CacheService_getSessionHistory c sid)"
  using assms
  by (auto simp add: cache_defs redis_range_all redis_range_100 Let_def
      split: option.splits redis_value.splits)

text \<open>A read with a limit between 1 and the length of the list returns the tail of the
  stored list, which is newest first: the oldest entries, newest first.\<close>

lemma getSessionHistory_tail:
  assumes "0 < k" and "nat k \<le> length (CacheService_getSessionHistory (cacheService m) sid)"
  shows "getSessionHistory m sid (Some k) =
         drop (length (CacheService_getSessionHistory (cacheService m) sid) - nat k)
           (CacheService_getSessionHistory (cacheService m) sid)"
  using assms
  by (auto simp: getSessionHistory_def slice_def Let_def max_def nat_diff_distrib
      intro: arg_cong2 [where f = drop])

text \<open>
  Claim C3, at an input where the code departs from it. After the appends \<open>e1\<close>,
  \<open>e2\<close>, \<open>e3\<close> the store holds the list newest first, and a read with limit 2 returns
  \<open>[e2, e1]\<close>: the two oldest entries, newest first, where the claim has the two most
  recent entries \<open>[e2, e3]\<close>, oldest first.
\<close>

theorem getSessionHistory_returns_oldest:
  "CacheService_getSessionHistory three_entries ''s1'' =
     [example_entry ''e3'' 3, example_entry ''e2'' 2, example_entry ''e1'' 1] \<and>
   getSessionHistory (new_SessionManager three_entries) ''s1'' (Some 2) =
     [example_entry ''e2'' 2, example_entry ''e1'' 1]"
  by (simp add: three_entries_def empty_store_def new_SessionManager_def getSessionHistory_def
      js_defs cache_defs Let_def)

section \<open>Teardown\<close>

lemma joined_session_store:
  "cacheService joined_session =
     \<lparr>connected = True,
      client =
        [''history:s1'' \<mapsto>
           RList [\<lparr>entry_id = ''e1'', timestamp = 5, userInput = Some ''hi'',
                    aiResponse = Some ''hello'', entry_language = ''en'',
                    entry_voice = ''male'', audioUrl = None, entry_duration = None\<rparr>],
         ''session:s1'' \<mapsto>
           RString (JSession
             \<lparr>session_id = ''s1'', createdAt = 1, lastActivity = 6,
              participants = [''p1''], language = ''en'', voice = ''male'',
              history = [\<lparr>entry_id = ''e1'', timestamp = 5, userInput = Some ''hi'',
                    aiResponse = Some ''hello'', entry_language = ''en'',
                    entry_voice = ''male'', audioUrl = None, entry_duration = None\<rparr>],
              isRecording = False, recordingData = [],
              settings = \<lparr>autoTranslate = False, voiceEnabled = True, subtitleEnabled = True\<rparr>,
              recordingStartTime = None, recordingEndTime = None,
              recordingDuration = None, recordings = None\<rparr>) 3600]\<rparr>"
  by (simp add: example_defs manager_defs js_defs cache_defs Let_def)

text \<open>When the last participant leaves, on a connected store, the session is gone from
  memory and from the store, and the history list is what it was: \<open>leaveSession\<close>
  deletes the key \<open>session:<id>\<close> only.\<close>

lemma leaveSession_last_participant:
  assumes "connected (cacheService m)"
    and "CacheService_getSession (cacheService m) sid = Some s"
    and "filter (\<lambda>i. i \<noteq> participantId) (participants s) = []"
  shows "fst (getSession (leaveSession m sid participantId now) sid) = None \<and>
         getSessionHistory (leaveSession m sid participantId now) sid limit =
           getSessionHistory m sid limit"
  using assms
  by (simp add: leaveSession_def getSession_def getSessionHistory_def alloc_def assign_def
      cache_defs Let_def)

lemma connected_foldl_del:
  "connected (foldl (\<lambda>c k. snd (CacheService_del c (f k))) c ks) = connected c"
  by (induction ks arbitrary: c) (simp_all add: CacheService_del_def)

text \<open>The sibling path: \<open>deleteSession\<close> deletes the history list as well.\<close>

lemma deleteSession_clears_history:
  assumes "connected (cacheService m)" and "getSession m sid = (Some r, m1)"
  shows "getSessionHistory (snd (deleteSession m sid)) sid limit = []"
proof -
  have c: "connected (cacheService m1)"
    using assms by (auto simp: getSession_def alloc_def Let_def split: option.splits)
  show ?thesis
    using assms(2) c
    by (simp add: deleteSession_def getSessionHistory_def connected_foldl_del
        CacheService_deleteSession_def CacheService_del_def CacheService_getSessionHistory_def
        CacheService_lrange_def slice_def Let_def)
qed

text \<open>
  Claim C4, at an input where the code departs from it. The session \<open>s1\<close> has the one
  participant \<open>p1\<close> and one history entry. After \<open>leaveSession\<close> of \<open>p1\<close>,
  \<open>getSession\<close> returns nothing, and the history read still returns the entry.
\<close>

theorem leaveSession_keeps_history:
  "fst (getSession (leaveSession joined_session ''s1'' ''p1'' 7) ''s1'') = None \<and>
   getSessionHistory (leaveSession joined_session ''s1'' ''p1'' 7) ''s1'' None =
     [\<lparr>entry_id = ''e1'', timestamp = 5, userInput = Some ''hi'', aiResponse = Some ''hello'',
       entry_language = ''en'', entry_voice = ''male'', audioUrl = None, entry_duration = None\<rparr>]"
proof -
  have h1: "connected (cacheService joined_session)"
    by (simp add: joined_session_store)
  have h2: "CacheService_getSession (cacheService joined_session) ''s1'' =
      Some \<lparr>session_id = ''s1'', createdAt = 1, lastActivity = 6,
              participants = [''p1''], language = ''en'', voice = ''male'',
              history = [\<lparr>entry_id = ''e1'', timestamp = 5, userInput = Some ''hi'',
                    aiResponse = Some ''hello'', entry_language = ''en'',
                    entry_voice = ''male'', audioUrl = None, entry_duration = None\<rparr>],
              isRecording = False, recordingData = [],
              settings = \<lparr>autoTranslate = False, voiceEnabled = True, subtitleEnabled = True\<rparr>,
              recordingStartTime = None, recordingEndTime = None,
              recordingDuration = None, recordings = None\<rparr>"
    by (simp add: joined_session_store CacheService_getSession_def CacheService_get_def)
  have h3: "getSessionHistory joined_session ''s1'' None =
      [\<lparr>entry_id = ''e1'', timestamp = 5, userInput = Some ''hi'', aiResponse = Some ''hello'',
       entry_language = ''en'', entry_voice = ''male'', audioUrl = None, entry_duration = None\<rparr>]"
    by (simp add: joined_session_store getSessionHistory_def CacheService_getSessionHistory_def
        CacheService_lrange_def js_defs Let_def)
  show ?thesis
    using leaveSession_last_participant [OF h1 h2, of "''p1''" 7 None] h3
    by simp
qed

section \<open>Looking a session up\<close>

lemma getSession_memory: "activeSessions m sid = Some r \<Longrightarrow> getSession m sid = (Some r, m)"
  by (simp add: getSession_def)

lemma getSession_not_found: "fst (getSession m sid) = None \<Longrightarrow> getSession m sid = (None, m)"
  by (auto simp: getSession_def alloc_def Let_def split: option.splits)



section \<open>Implicit creation on join\<close>

text \<open>
  Claim C10, as the code has it. When the store returns no session for the requested
  id (the key is absent, or the store is not connected), \<open>joinSession\<close> creates a
  session whose \<open>id\<close> is the generated one, so the returned session's \<open>id\<close> differs
  from the requested id exactly when the generated id does. This one object is cached
  under the requested id and under its own id. It is persisted under the key of the
  requested id when the store is connected; when the store is not connected that key
  is left as it was.
\<close>

theorem joinSession_implicit_id:
  assumes "CacheService_getSession (cacheService m) sid = None"
    and "joinSession m env sid participantId options newId t1 t2 now = (r, m')"
  shows "session_id (objects m' r) = newId \<and>
         (session_id (objects m' r) \<noteq> sid) = (newId \<noteq> sid) \<and>
         activeSessions m' sid = Some r \<and> activeSessions m' newId = Some r \<and>
         client (cacheService m') (''session:'' @ sid) =
           (if connected (cacheService m) then Some (RString (JSession (objects m' r)) 3600)
            else client (cacheService m) (''session:'' @ sid))"
proof -
  obtain r1 m1 where c: "createSession m env options newId t1 t2 = (r1, m1)"
    by fastforce
  have p: "session_id (objects m1 r1) = newId"
      "activeSessions m1 = (activeSessions m)(newId \<mapsto> r1)"
      "connected (cacheService m1) = connected (cacheService m)"
    using createSession_result [of m env options newId t1 t2] c by simp_all
  have k: "client (cacheService m1) (''session:'' @ sid) = client (cacheService m) (''session:'' @ sid)"
    if "\<not> connected (cacheService m)"
    using that c
    by (auto simp add: createSession_def alloc_def CacheService_setSession_def CacheService_set_def
        Let_def)
  have "(case CacheService_getSession (cacheService m) sid of
               None \<Rightarrow> createSession m env options newId t1 t2
             | Some s \<Rightarrow> alloc m s) = (r1, m1)"
    using assms(1) c by simp
  from joinSession_eq [OF this, of participantId now] assms(2)
  have r: "r = r1"
    and m': "m' = m1\<lparr>objects := (objects m1)(r1 := join_update (objects m1 r1) participantId options now
                  (CacheService_getSessionHistory (cacheService m1) sid)),
            cacheService := snd (CacheService_setSession (cacheService m1) sid
                (join_update (objects m1 r1) participantId options now
                  (CacheService_getSessionHistory (cacheService m1) sid))),
            activeSessions := (activeSessions m1)(sid \<mapsto> r1)\<rparr>"
    by simp_all
  show ?thesis
  proof (cases "connected (cacheService m)")
    case True
    then show ?thesis
      using p
      by (simp add: r m' session_id_join_update CacheService_setSession_def CacheService_set_def)
  next
    case False
    then show ?thesis
      using p k
      by (simp add: r m' session_id_join_update CacheService_setSession_def CacheService_set_def)
  qed
qed

text \<open>The theorem at a new manager on an empty connected store: joining \<open>s1\<close> gives a
  session whose id is the generated \<open>u1\<close>, cached under \<open>s1\<close> and persisted under
  \<open>session:s1\<close>.\<close>

theorem joinSession_implicit_id_witness:
  "CacheService_getSession (cacheService (new_SessionManager (empty_store True))) ''s1'' = None \<and>
   session_id (objects
     (snd (joinSession (new_SessionManager (empty_store True)) no_env ''s1'' ''p1'' no_options ''u1'' 1 1 2))
     (fst (joinSession (new_SessionManager (empty_store True)) no_env ''s1'' ''p1'' no_options ''u1'' 1 1 2)))
     = ''u1'' \<and>
   activeSessions
     (snd (joinSession (new_SessionManager (empty_store True)) no_env ''s1'' ''p1'' no_options ''u1'' 1 1 2))
     ''s1'' =
     Some (fst (joinSession (new_SessionManager (empty_store True)) no_env ''s1'' ''p1'' no_options ''u1'' 1 1 2)) \<and>
   client (cacheService
     (snd (joinSession (new_SessionManager (empty_store True)) no_env ''s1'' ''p1'' no_options ''u1'' 1 1 2)))
     ''session:s1'' =
     Some (RString (JSession (objects
       (snd (joinSession (new_SessionManager (empty_store True)) no_env ''s1'' ''p1'' no_options ''u1'' 1 1 2))
       (fst (joinSession (new_SessionManager (empty_store True)) no_env ''s1'' ''p1'' no_options ''u1'' 1 1 2))))
       3600)"
proof -
  have h1: "CacheService_getSession (cacheService (new_SessionManager (empty_store True))) ''s1'' = None"
    by (simp add: example_defs cache_defs)
  have h2: "joinSession (new_SessionManager (empty_store True)) no_env ''s1'' ''p1'' no_options ''u1'' 1 1 2 =
      (fst (joinSession (new_SessionManager (empty_store True)) no_env ''s1'' ''p1'' no_options ''u1'' 1 1 2),
       snd (joinSession (new_SessionManager (empty_store True)) no_env ''s1'' ''p1'' no_options ''u1'' 1 1 2))"
    by simp
  have c: "connected (cacheService (new_SessionManager (empty_store True)))"
    by (simp add: example_defs)
  show ?thesis
    using h1 c joinSession_implicit_id [OF h1 h2]
    by simp
qed

text \<open>Claim C10 as stated fails on a store that is not connected: joining \<open>s1\<close> gives
  a session whose id is the generated \<open>u1\<close>, cached under \<open>s1\<close>, and nothing is
  persisted under \<open>session:s1\<close>.\<close>

theorem joinSession_implicit_not_persisted:
  "client (cacheService (new_SessionManager (empty_store False))) ''session:s1'' = None \<and>
   activeSessions (new_SessionManager (empty_store False)) ''s1'' = None \<and>
   fst (joinSession (new_SessionManager (empty_store False)) no_env ''s1'' ''p1'' no_options ''u1'' 1 1 2) = 0 \<and>
   session_id (objects
     (snd (joinSession (new_SessionManager (empty_store False)) no_env ''s1'' ''p1'' no_options ''u1'' 1 1 2))
     0) = ''u1'' \<and>
   activeSessions
     (snd (joinSession (new_SessionManager (empty_store False)) no_env ''s1'' ''p1'' no_options ''u1'' 1 1 2))
     ''s1'' = Some 0 \<and>
   client (cacheService
     (snd (joinSession (new_SessionManager (empty_store False)) no_env ''s1'' ''p1'' no_options ''u1'' 1 1 2)))
     ''session:s1'' = None"
  by (simp add: example_defs manager_defs js_defs cache_defs Let_def)

section \<open>The last-activity timestamp\<close>

























section \<open>Recording capture: start\<close>

text \<open>
  Claim C5, as the code has it. \<open>startRecording\<close> on a session that is already
  recording never fails with an error of its own. When \<open>getSession\<close> finds the
  session, the call succeeds: it returns the session, sets the start time to the
  current time and replaces the accumulated raw data by an empty list. When
  \<open>getSession\<close> finds no session, the call fails with \<open>Session not found\<close> and changes
  nothing.
\<close>

theorem startRecording_resets_or_not_found:
  "(getSession m sid = (Some r, m1) \<longrightarrow>
      fst (startRecording m sid now) = Inr r \<and>
      recordingSessions (snd (startRecording m sid now)) sid =
        Some \<lparr>buf_startTime = now, buf_data = []\<rparr> \<and>
      isRecording (objects (snd (startRecording m sid now)) r) \<and>
      recordingStartTime (objects (snd (startRecording m sid now)) r) = Some now \<and>
      recordingData (objects (snd (startRecording m sid now)) r) = []) \<and>
   (fst (getSession m' sid') = None \<longrightarrow>
      startRecording m' sid' now' = (Inl SessionNotFound, m'))"
proof (intro conjI impI)
  assume g: "fst (getSession m' sid') = None"
  show "startRecording m' sid' now' = (Inl SessionNotFound, m')"
    using getSession_not_found [OF g] by (simp add: startRecording_def)
next
  assume g: "getSession m sid = (Some r, m1)"
  show "fst (startRecording m sid now) = Inr r"
    using g by (simp add: startRecording_def Let_def)
  show "recordingSessions (snd (startRecording m sid now)) sid =
      Some \<lparr>buf_startTime = now, buf_data = []\<rparr>"
    using g by (simp add: startRecording_def assign_def Let_def)
  show "isRecording (objects (snd (startRecording m sid now)) r)"
    using g by (simp add: startRecording_def assign_def Let_def)
  show "recordingStartTime (objects (snd (startRecording m sid now)) r) = Some now"
    using g by (simp add: startRecording_def assign_def Let_def)
  show "recordingData (objects (snd (startRecording m sid now)) r) = []"
    using g by (simp add: startRecording_def assign_def Let_def)
qed

lemma restarted_store_down_lookup:
  "fst (getSession restarted_store_down ''s1'') = None"
  by (simp add: restarted_store_down_def new_SessionManager_def CacheService_on_end_def
      getSession_def CacheService_getSession_def CacheService_get_def)

lemma restarted_store_down_store:
  "client (cacheService restarted_store_down) ''session:s1'' =
     Some (RString (JSession
       \<lparr>session_id = ''s1'', createdAt = 1, lastActivity = 1,
        participants = [], language = ''en'', voice = ''male'',
        history = [], isRecording = True, recordingData = [],
        settings = \<lparr>autoTranslate = False, voiceEnabled = True, subtitleEnabled = True\<rparr>,
        recordingStartTime = Some 10, recordingEndTime = None,
        recordingDuration = None, recordings = None\<rparr>) 3600)"
  by (simp add: example_defs manager_defs js_defs cache_defs Let_def)

text \<open>The theorem at a session that has been recording since time 10 and holds one
  chunk of raw data, where a second \<open>startRecording\<close> at time 20 succeeds and empties
  the accumulator; and at a restarted manager whose store is not connected, where
  \<open>startRecording\<close> fails with \<open>Session not found\<close>.\<close>

theorem startRecording_resets_or_not_found_witness:
  "getSession recording_session ''s1'' = (Some 0, recording_session) \<and>
   recordingSessions recording_session ''s1'' =
     Some \<lparr>buf_startTime = 10, buf_data = [\<lparr>raw_timestamp = 15, raw_data = ''chunk''\<rparr>]\<rparr> \<and>
   fst (startRecording recording_session ''s1'' 20) = Inr 0 \<and>
   recordingSessions (snd (startRecording recording_session ''s1'' 20)) ''s1'' =
     Some \<lparr>buf_startTime = 20, buf_data = []\<rparr> \<and>
   fst (getSession restarted_store_down ''s1'') = None \<and>
   startRecording restarted_store_down ''s1'' 20 = (Inl SessionNotFound, restarted_store_down)"
proof -
  have h1: "getSession recording_session ''s1'' = (Some 0, recording_session)"
    by (simp add: getSession_def recording_session_memory)
  have h2: "fst (getSession restarted_store_down ''s1'') = None"
    by (rule restarted_store_down_lookup)
  show ?thesis
    using h1 h2 recording_session_memory
      startRecording_resets_or_not_found [where m = recording_session and sid = "''s1''"
        and r = 0 and ?m1.0 = recording_session and now = 20
        and m' = restarted_store_down and sid' = "''s1''" and now' = 20]
    by simp
qed

text \<open>Claim C5 as stated fails: on the session that is recording, the second
  \<open>startRecording\<close> returns the session, not an error, and the raw data is gone. And
  on a restarted manager whose store holds the session \<open>s1\<close> with \<open>isRecording\<close> true
  but is not connected, \<open>startRecording\<close> fails with \<open>Session not found\<close>.\<close>

theorem startRecording_twice_succeeds:
  "isRecording (objects recording_session 0) \<and>
   fst (startRecording recording_session ''s1'' 20) = Inr 0 \<and>
   recordingSessions (snd (startRecording recording_session ''s1'' 20)) ''s1'' =
     Some \<lparr>buf_startTime = 20, buf_data = []\<rparr> \<and>
   client (cacheService restarted_store_down) ''session:s1'' =
     Some (RString (JSession
       \<lparr>session_id = ''s1'', createdAt = 1, lastActivity = 1,
        participants = [], language = ''en'', voice = ''male'',
        history = [], isRecording = True, recordingData = [],
        settings = \<lparr>autoTranslate = False, voiceEnabled = True, subtitleEnabled = True\<rparr>,
        recordingStartTime = Some 10, recordingEndTime = None,
        recordingDuration = None, recordings = None\<rparr>) 3600) \<and>
   fst (startRecording restarted_store_down ''s1'' 20) = Inl SessionNotFound"
proof -
  have a: "isRecording (objects recording_session 0) \<and>
      fst (startRecording recording_session ''s1'' 20) = Inr 0 \<and>
      recordingSessions (snd (startRecording recording_session ''s1'' 20)) ''s1'' =
        Some \<lparr>buf_startTime = 20, buf_data = []\<rparr>"
    by (simp add: example_defs manager_defs js_defs cache_defs Let_def)
  have b: "fst (startRecording restarted_store_down ''s1'' 20) = Inl SessionNotFound"
    using getSession_not_found [OF restarted_store_down_lookup]
    by (simp add: startRecording_def)
  show ?thesis
    using a b restarted_store_down_store by simp
qed

section \<open>Recording capture: stop\<close>






section \<open>The history ledger when the store is not connected\<close>




end
